theory Spec2Isabelle
  imports Main "HOL-Library.AList"
begin

section \<open>Strings\<close>

text \<open>
  Commands are Python \<open>str\<close> values. They are modelled as \<open>string\<close> (a list of 8-bit
  characters); a non-ASCII literal of the source is its UTF-8 byte sequence. The three string
  methods used by the policy check are \<open>strip\<close>, \<open>lower\<close> and \<open>startswith\<close>. On the ASCII
  range Python's \<open>str.isspace\<close> holds for the code points 9..13 and 28..32, and \<open>lower\<close> maps
  \<open>A..Z\<close> to \<open>a..z\<close>; bytes outside the ASCII range are left alone.
\<close>

definition is_space :: "char \<Rightarrow> bool" where
  "is_space c = (let n = (of_char c :: nat) in (9 \<le> n \<and> n \<le> 13) \<or> (28 \<le> n \<and> n \<le> 32))"

definition strip :: "string \<Rightarrow> string" where
  "strip s = rev (dropWhile is_space (rev (dropWhile is_space s)))"

definition lower_char :: "char \<Rightarrow> char" where
  "lower_char c = (let n = (of_char c :: nat) in if 65 \<le> n \<and> n \<le> 90 then char_of (n + 32) else c)"

definition lower :: "string \<Rightarrow> string" where
  "lower s = map lower_char s"

definition startswith :: "string \<Rightarrow> string \<Rightarrow> bool" where
  "startswith s p = (take (length p) s = p)"

text \<open>\<open>str(n)\<close> for an integer, as an f-string renders it: decimal, with a minus sign.\<close>

definition digit_char :: "nat \<Rightarrow> char" where
  "digit_char d = char_of (48 + d)"

function str_nat :: "nat \<Rightarrow> string" where
  "str_nat n = (if n < 10 then [digit_char n] else str_nat (n div 10) @ [digit_char (n mod 10)])"
  by pat_completeness auto
termination
  by (relation "measure id") auto

declare str_nat.simps [simp del]

definition str_int :: "int \<Rightarrow> string" where
  "str_int i = (if i < 0 then CHR ''-'' # str_nat (nat (- i)) else str_nat (nat i))"

text \<open>
  The message literals of the source, as UTF-8 bytes: the denial message, the prefix and the
  unit of the timeout message, the prefix of the execution-failure message, the prefixes of
  the two background-task failure messages and of the unknown-task message.
\<close>

definition msg_forbidden :: string where
  "msg_forbidden = [CHR 0xE5, CHR 0x91, CHR 0xBD, CHR 0xE4, CHR 0xBB, CHR 0xA4, CHR 0xE8,
     CHR 0xA2, CHR 0xAB, CHR 0xE7, CHR 0xA6, CHR 0x81, CHR 0xE6, CHR 0xAD, CHR 0xA2, CHR 0xE6,
     CHR 0x89, CHR 0xA7, CHR 0xE8, CHR 0xA1, CHR 0x8C]"

definition msg_timeout_prefix :: string where
  "msg_timeout_prefix = [CHR 0xE5, CHR 0x91, CHR 0xBD, CHR 0xE4, CHR 0xBB, CHR 0xA4, CHR 0xE6,
     CHR 0x89, CHR 0xA7, CHR 0xE8, CHR 0xA1, CHR 0x8C, CHR 0xE8, CHR 0xB6, CHR 0x85, CHR 0xE6,
     CHR 0x97, CHR 0xB6, CHR 0x3A, CHR 0x20]"

definition msg_seconds :: string where
  "msg_seconds = [CHR 0xE7, CHR 0xA7, CHR 0x92]"

definition msg_failed_prefix :: string where
  "msg_failed_prefix = [CHR 0xE5, CHR 0x91, CHR 0xBD, CHR 0xE4, CHR 0xBB, CHR 0xA4, CHR 0xE6,
     CHR 0x89, CHR 0xA7, CHR 0xE8, CHR 0xA1, CHR 0x8C, CHR 0xE5, CHR 0xA4, CHR 0xB1, CHR 0xE8,
     CHR 0xB4, CHR 0xA5, CHR 0x3A, CHR 0x20]"

definition msg_bg_start_failed_prefix :: string where
  "msg_bg_start_failed_prefix = [CHR 0xE5, CHR 0x90, CHR 0x8E, CHR 0xE5, CHR 0x8F, CHR 0xB0,
     CHR 0xE4, CHR 0xBB, CHR 0xBB, CHR 0xE5, CHR 0x8A, CHR 0xA1, CHR 0xE5, CHR 0x90, CHR 0xAF,
     CHR 0xE5, CHR 0x8A, CHR 0xA8, CHR 0xE5, CHR 0xA4, CHR 0xB1, CHR 0xE8, CHR 0xB4, CHR 0xA5,
     CHR 0x3A, CHR 0x20]"

definition msg_bg_failed_prefix :: string where
  "msg_bg_failed_prefix = [CHR 0xE5, CHR 0x90, CHR 0x8E, CHR 0xE5, CHR 0x8F, CHR 0xB0,
     CHR 0xE4, CHR 0xBB, CHR 0xBB, CHR 0xE5, CHR 0x8A, CHR 0xA1, CHR 0xE6, CHR 0x89, CHR 0xA7,
     CHR 0xE8, CHR 0xA1, CHR 0x8C, CHR 0xE5, CHR 0xA4, CHR 0xB1, CHR 0xE8, CHR 0xB4, CHR 0xA5,
     CHR 0x3A, CHR 0x20]"

definition msg_no_task_prefix :: string where
  "msg_no_task_prefix = [CHR 0xE4, CHR 0xBB, CHR 0xBB, CHR 0xE5, CHR 0x8A, CHR 0xA1, CHR 0xE4,
     CHR 0xB8, CHR 0x8D, CHR 0xE5, CHR 0xAD, CHR 0x98, CHR 0xE5, CHR 0x9C, CHR 0xA8, CHR 0x3A,
     CHR 0x20]"

section \<open>Results, tasks and the executor's state\<close>

text \<open>
  The result dicts of the executor. \<open>RunResult\<close> is the dict with the keys \<open>success\<close>,
  \<open>stdout\<close>, \<open>stderr\<close>, \<open>return_code\<close>, \<open>command\<close>, \<open>timeout\<close>, \<open>background\<close>;
  \<open>TaskStarted\<close> the dict with \<open>success\<close>, \<open>task_id\<close>, \<open>command\<close>, \<open>timeout\<close>,
  \<open>background\<close>; \<open>ErrorResult\<close> the dict whose only key is \<open>error\<close>.
\<close>

datatype cmd_result =
    RunResult bool string string int string int bool
  | TaskStarted bool string string int bool
  | ErrorResult string


fun get_error :: "cmd_result \<Rightarrow> string option" where
  "get_error (ErrorResult msg) = Some msg"
| "get_error r = None"

fun get_task_id :: "cmd_result \<Rightarrow> string option" where
  "get_task_id (TaskStarted success task_id command tmo bg) = Some task_id"
| "get_task_id r = None"

text \<open>
  One entry of \<open>command_history\<close>: the dict \<open>{"command", "time", "cwd"}\<close>. A reading of
  \<open>time.time()\<close> is supplied by the caller of the model, as a whole number of microseconds.
\<close>

record history_entry =
  h_command :: string
  h_time :: int
  h_cwd :: string

text \<open>
  A background task dict. \<open>t_process\<close> says whether the \<open>process\<close> slot holds a handle. A
  callback is a function of the result that returns \<open>None\<close> when it returns normally and
  \<open>Some msg\<close> when it raises an exception \<open>e\<close> with \<open>str(e) = msg\<close>.
\<close>

record task =
  t_id :: string
  t_command :: string
  t_start_time :: int
  t_timeout :: int
  t_cwd :: string
  t_env :: "(string \<times> string) list"
  t_shell :: bool
  t_running :: bool
  t_result :: "cmd_result option"
  t_process :: bool
  t_callback :: "(cmd_result \<Rightarrow> string option) option"

text \<open>
  The fields of \<open>CommandExecutor\<close>. \<open>allowed_commands\<close> is \<open>Optional[List[str]]\<close>. A task
  dict is shared between the registry \<open>background_tasks\<close> and the thread that runs it, so
  the task dicts live in a store (\<open>task_store\<close>, a reference is an index into it) and the
  registry maps a task id to a reference. The registry is an association list in insertion
  order, as a Python dict is.
\<close>

record executor =
  timeout :: int
  allowed_commands :: "string list option"
  blocked_commands :: "string list"
  current_dir :: string
  command_history :: "history_entry list"
  max_history :: nat
  task_store :: "task list"
  background_tasks :: "(string \<times> nat) list"

text \<open>
  \<open>CommandExecutor.__init__\<close>: \<open>blocked_commands or []\<close> turns a missing block-list into the
  empty list; the history starts empty with a cap of 100; there are no tasks.
\<close>

definition init_executor :: "int \<Rightarrow> string list option \<Rightarrow> string list option \<Rightarrow> string \<Rightarrow> executor" where
  "init_executor tmo allowed blocked cwd =
     \<lparr> timeout = tmo,
       allowed_commands = allowed,
       blocked_commands = (case blocked of None \<Rightarrow> [] | Some bs \<Rightarrow> bs),
       current_dir = cwd,
       command_history = [],
       max_history = 100,
       task_store = [],
       background_tasks = [] \<rparr>"

text \<open>
  The \<open>tools\<close> section of the settings dict, as \<open>CommandHandler.__init__\<close> reads it: each
  key may be absent (\<open>None\<close>). The handler reads \<open>timeout\<close> with default 30,
  \<open>allowed_commands\<close> with default \<open>None\<close> and \<open>blocked_commands\<close> with the default
  \<open>["rm -rf /", "del /f /s /q"]\<close>, and constructs the executor from them. A missing
  \<open>tools\<close> section reads as the empty dict.
\<close>

record tools_settings =
  ts_timeout :: "int option"
  ts_allowed_commands :: "string list option"
  ts_blocked_commands :: "string list option"

definition empty_tools :: tools_settings where
  "empty_tools = \<lparr> ts_timeout = None, ts_allowed_commands = None, ts_blocked_commands = None \<rparr>"

definition default_blocked_commands :: "string list" where
  "default_blocked_commands = [''rm -rf /'', ''del /f /s /q'']"

definition handler_executor :: "tools_settings option \<Rightarrow> string \<Rightarrow> executor" where
  "handler_executor tools cwd =
     (let ts = (case tools of None \<Rightarrow> empty_tools | Some t \<Rightarrow> t);
          command_timeout = (case ts_timeout ts of None \<Rightarrow> 30 | Some t \<Rightarrow> t);
          allowed = ts_allowed_commands ts;
          blocked = (case ts_blocked_commands ts of None \<Rightarrow> default_blocked_commands | Some bs \<Rightarrow> bs)
      in init_executor command_timeout allowed (Some blocked) cwd)"

section \<open>The command policy\<close>

text \<open>The first loop of \<open>_is_command_allowed\<close>: it leaves \<open>allowed\<close> true at the first match.\<close>

fun allowed_loop :: "string \<Rightarrow> string list \<Rightarrow> bool" where
  "allowed_loop command [] = False"
| "allowed_loop command (allowed_cmd # rest) =
     (if startswith (strip command) allowed_cmd then True else allowed_loop command rest)"

text \<open>The second loop: it returns false at the first match and true when it runs out.\<close>

fun blocked_loop :: "string \<Rightarrow> string list \<Rightarrow> bool" where
  "blocked_loop command [] = True"
| "blocked_loop command (blocked_cmd # rest) =
     (if startswith (lower (strip command)) (lower blocked_cmd) then False
      else blocked_loop command rest)"

text \<open>\<open>if self.allowed_commands:\<close> is false for \<open>None\<close> and for the empty list.\<close>

fun truthy :: "'a list option \<Rightarrow> bool" where
  "truthy None = False"
| "truthy (Some []) = False"
| "truthy (Some (x # xs)) = True"

definition is_command_allowed :: "executor \<Rightarrow> string \<Rightarrow> bool" where
  "is_command_allowed ex command =
     (if truthy (allowed_commands ex) \<and> \<not> allowed_loop command (the (allowed_commands ex))
      then False
      else blocked_loop command (blocked_commands ex))"

section \<open>The command history\<close>

text \<open>
  \<open>_add_to_history\<close>: append, then drop the first entry when the list has grown past
  \<open>max_history\<close>. \<open>now\<close> is the reading of \<open>time.time()\<close>.
\<close>

definition add_to_history :: "executor \<Rightarrow> string \<Rightarrow> int \<Rightarrow> executor" where
  "add_to_history ex command now =
     (let h = command_history ex @ [\<lparr> h_command = command, h_time = now, h_cwd = current_dir ex \<rparr>]
      in ex\<lparr> command_history := (if length h > max_history ex then tl h else h) \<rparr>)"

text \<open>
  The Python slice \<open>xs[start:]\<close> for an integer \<open>start\<close>: a negative start counts from the
  end, and the result is clamped to the list.
\<close>

definition slice_from :: "'a list \<Rightarrow> int \<Rightarrow> 'a list" where
  "slice_from xs start =
     (let n = int (length xs);
          s0 = (if start < 0 then start + n else start);
          s1 = (if s0 < 0 then 0 else if s0 > n then n else s0)
      in drop (nat s1) xs)"

text \<open>\<open>get_command_history\<close>: \<open>self.command_history[-count:]\<close>.\<close>

definition get_command_history :: "executor \<Rightarrow> int \<Rightarrow> history_entry list" where
  "get_command_history ex count = slice_from (command_history ex) (- count)"

text \<open>Recording a sequence of accepted commands, each with its clock reading.\<close>

fun record_all :: "executor \<Rightarrow> (string \<times> int) list \<Rightarrow> executor" where
  "record_all ex [] = ex"
| "record_all ex ((command, now) # rest) = record_all (add_to_history ex command now) rest"

section \<open>Processes and what the executor does to them\<close>

text \<open>
  The operations the executor performs on the operating system, the task dict and the log
  are recorded in a trace. \<open>Kill\<close> is \<open>Popen.kill\<close>, \<open>Terminate\<close> is \<open>Popen.terminate\<close>,
  \<open>Wait\<close> is \<open>Popen.wait\<close>, \<open>ThreadStart r\<close> starts the thread that runs the task at
  reference \<open>r\<close>, and the three \<open>Log\<close> events are the calls of \<open>logger.info\<close>,
  \<open>logger.warning\<close> and \<open>logger.error\<close>.
\<close>

datatype event =
    Spawn
  | Poll
  | Sleep
  | Terminate
  | Wait
  | Kill
  | Communicate
  | SetResult cmd_result
  | SetRunning bool
  | Callback cmd_result
  | ThreadStart nat
  | LogInfo
  | LogWarning
  | LogError string

text \<open>
  What \<open>subprocess.run(command, timeout=...)\<close> does with a command is an input of the model:
  the process exits with its output and return code, the timeout expires, \<open>Popen\<close> fails
  to create the process (\<open>SpawnError\<close>, with \<open>str(e)\<close>), or another exception arrives
  after the process was created. The operations of \<open>subprocess.run\<close> in each case are those
  of the standard library: on an expired timeout, and on any other exception, it kills the
  child before it re-raises.
\<close>

datatype run_outcome =
    Exited string string int
  | TimeoutExpired
  | SpawnError string
  | OtherError string

fun subprocess_run_events :: "run_outcome \<Rightarrow> event list" where
  "subprocess_run_events (Exited out err rc) = [Spawn, Communicate]"
| "subprocess_run_events TimeoutExpired = [Spawn, Communicate, Kill, Wait]"
| "subprocess_run_events (SpawnError e) = []"
| "subprocess_run_events (OtherError e) = [Spawn, Communicate, Kill]"

text \<open>\<open>_execute_foreground\<close>: the result dict and the trace.\<close>

fun execute_foreground :: "string \<Rightarrow> int \<Rightarrow> string \<Rightarrow> (string \<times> string) list option \<Rightarrow> bool
    \<Rightarrow> run_outcome \<Rightarrow> cmd_result \<times> event list" where
  "execute_foreground command tmo cwd env shell (Exited out err rc) =
     (RunResult True out err rc command tmo False, subprocess_run_events (Exited out err rc))"
| "execute_foreground command tmo cwd env shell TimeoutExpired =
     (let error_msg = msg_timeout_prefix @ str_int tmo @ msg_seconds
      in (ErrorResult error_msg, subprocess_run_events TimeoutExpired @ [LogError error_msg]))"
| "execute_foreground command tmo cwd env shell (SpawnError e) =
     (let error_msg = msg_failed_prefix @ e
      in (ErrorResult error_msg, subprocess_run_events (SpawnError e) @ [LogError error_msg]))"
| "execute_foreground command tmo cwd env shell (OtherError e) =
     (let error_msg = msg_failed_prefix @ e
      in (ErrorResult error_msg, subprocess_run_events (OtherError e) @ [LogError error_msg]))"

text \<open>
  The surroundings of one call of \<open>execute_command\<close>: the three clock readings (for the
  history entry, for the task id, where \<open>w_time_id\<close> is the value of
  \<open>int(time.time() * 1000000)\<close>, and for \<open>start_time\<close>), \<open>os.environ\<close>, what the
  foreground run does, and whether \<open>Thread.start\<close> raises.
\<close>

record world =
  w_time_history :: int
  w_time_id :: int
  w_time_start :: int
  w_environ :: "(string \<times> string) list"
  w_run :: run_outcome
  w_thread_error :: "string option"

text \<open>The task id: \<open>f"bg_{int(time.time() * 1000000)}"\<close>.\<close>

definition make_task_id :: "int \<Rightarrow> string" where
  "make_task_id now = ''bg_'' @ str_int now"

text \<open>
  \<open>_execute_background\<close>: build the task dict (with \<open>env or os.environ\<close>), start its
  thread, store the task under its id (an assignment to a dict key: an existing key keeps its
  place and gets the new value).
\<close>

definition execute_background :: "executor \<Rightarrow> string \<Rightarrow> int \<Rightarrow> string \<Rightarrow> (string \<times> string) list option
    \<Rightarrow> bool \<Rightarrow> (cmd_result \<Rightarrow> string option) option \<Rightarrow> world
    \<Rightarrow> cmd_result \<times> executor \<times> event list" where
  "execute_background ex command tmo cwd env shell callback w =
     (let task_id = make_task_id (w_time_id w);
          task = \<lparr> t_id = task_id, t_command = command, t_start_time = w_time_start w,
                   t_timeout = tmo, t_cwd = cwd,
                   t_env = (case env of None \<Rightarrow> w_environ w
                            | Some e \<Rightarrow> if e = [] then w_environ w else e),
                   t_shell = shell,
                   t_running = True, t_result = None, t_process = False,
                   t_callback = callback \<rparr>;
          ref = length (task_store ex)
      in case w_thread_error w of
           Some e \<Rightarrow>
             (let error_msg = msg_bg_start_failed_prefix @ e
              in (ErrorResult error_msg, ex, [LogError error_msg]))
         | None \<Rightarrow>
             (TaskStarted True task_id command tmo True,
              ex\<lparr> task_store := task_store ex @ [task],
                  background_tasks := AList.update task_id ref (background_tasks ex) \<rparr>,
              [ThreadStart ref, LogInfo]))"

text \<open>
  \<open>execute_command\<close>: the policy check first, whose denial logs a warning; then the
  defaults (\<open>timeout or self.timeout\<close>, \<open>cwd or self.current_dir\<close>), the history entry, and
  one of the two paths. Both paths catch every exception themselves, so the handler of
  \<open>execute_command\<close> has nothing to catch.
\<close>

definition execute_command :: "executor \<Rightarrow> string \<Rightarrow> int option \<Rightarrow> bool \<Rightarrow> string option
    \<Rightarrow> (string \<times> string) list option \<Rightarrow> bool \<Rightarrow> (cmd_result \<Rightarrow> string option) option \<Rightarrow> world
    \<Rightarrow> cmd_result \<times> executor \<times> event list" where
  "execute_command ex command tmo_arg background cwd_arg env shell callback w =
     (if \<not> is_command_allowed ex command then (ErrorResult msg_forbidden, ex, [LogWarning])
      else
        let tmo = (case tmo_arg of None \<Rightarrow> timeout ex | Some t \<Rightarrow> if t = 0 then timeout ex else t);
            cwd = (case cwd_arg of None \<Rightarrow> current_dir ex | Some d \<Rightarrow> if d = [] then current_dir ex else d);
            ex1 = add_to_history ex command (w_time_history w)
        in if background
           then (case execute_background ex1 command tmo cwd env shell callback w of
                   (r, ex2, evs) \<Rightarrow> (r, ex2, LogInfo # evs))
           else (case execute_foreground command tmo cwd env shell (w_run w) of
                   (r, evs) \<Rightarrow> (r, ex1, LogInfo # evs)))"

section \<open>The thread of a background task\<close>

text \<open>
  What the process of a background task does is an input of the model: whether \<open>Popen\<close>
  raises; the poll (counted from 0) from which on the process has exited by itself, if it
  ever does; its output and return code; and, when it is terminated, whether
  \<open>wait(timeout=5)\<close> raises \<open>TimeoutExpired\<close> because the process is still alive, and the
  return code of the terminated process otherwise.
\<close>

record proc =
  p_spawn_error :: "string option"
  p_exits_at :: "nat option"
  p_stdout :: string
  p_stderr :: string
  p_returncode :: int
  p_wait_error :: "string option"
  p_term_returncode :: int

text \<open>\<open>process.poll() is not None\<close> at the poll number \<open>i\<close>.\<close>

definition exited :: "proc \<Rightarrow> nat \<Rightarrow> bool" where
  "exited p i = (case p_exits_at p of None \<Rightarrow> False | Some e \<Rightarrow> e \<le> i)"

text \<open>
  The waiting loop: \<open>while time.time() - start_time < task["timeout"]\<close>, with a poll and a
  sleep of 0.1 s in each round. The clock of the model advances by the sleeps alone, so the
  condition holds in round \<open>i\<close> exactly when \<open>i < 10 * timeout\<close>. The loop returns the number
  of sleeps it made and its trace.
\<close>

function wait_loop :: "proc \<Rightarrow> int \<Rightarrow> nat \<Rightarrow> nat \<times> event list" where
  "wait_loop p tmo i =
     (if int i < 10 * tmo
      then (if exited p i then (i, [Poll])
            else (case wait_loop p tmo (Suc i) of (j, evs) \<Rightarrow> (j, Poll # Sleep # evs)))
      else (i, []))"
  by pat_completeness auto
termination
  by (relation "measure (\<lambda>(p, tmo, i). nat (10 * tmo) - i)") auto

declare wait_loop.simps [simp del]

text \<open>
  The end of the \<open>try\<close> block of \<open>_execute_background_task\<close>, from \<open>communicate\<close> on: the
  result dict is stored, \<open>running\<close> is cleared and the callback is called. The first
  component is \<open>Some msg\<close> when an exception with that text leaves the block.
\<close>

definition record_result :: "task \<Rightarrow> proc \<Rightarrow> int \<Rightarrow> event list \<Rightarrow> string option \<times> task \<times> event list" where
  "record_result t p rc evs =
     (let r = RunResult True (p_stdout p) (p_stderr p) rc (t_command t) (t_timeout t) True;
          t' = t\<lparr> t_result := Some r, t_running := False \<rparr>;
          evs' = evs @ [Communicate, SetResult r, SetRunning False]
      in case t_callback t of
           None \<Rightarrow> (None, t', evs' @ [LogInfo])
         | Some f \<Rightarrow>
             (case f r of
                Some e \<Rightarrow> (Some e, t', evs' @ [Callback r])
              | None \<Rightarrow> (None, t', evs' @ [Callback r, LogInfo])))"

text \<open>The \<open>try\<close> block: spawn, wait, terminate a process that is still running, record.\<close>

definition try_block :: "task \<Rightarrow> proc \<Rightarrow> string option \<times> task \<times> event list" where
  "try_block t p =
     (case p_spawn_error p of
        Some e \<Rightarrow> (Some e, t, [])
      | None \<Rightarrow>
          (let t1 = t\<lparr> t_process := True \<rparr>;
               (i, evs) = wait_loop p (t_timeout t) 0
           in if \<not> exited p i
              then (case p_wait_error p of
                      Some e \<Rightarrow> (Some e, t1, Spawn # evs @ [Poll, Terminate, Wait])
                    | None \<Rightarrow>
                        record_result t1 p (p_term_returncode p) (Spawn # evs @ [Poll, Terminate, Wait]))
              else record_result t1 p (p_returncode p) (Spawn # evs @ [Poll])))"

text \<open>
  \<open>_execute_background_task\<close>: the \<open>try\<close> block and its \<open>except Exception\<close> handler, which
  logs, stores an error dict, clears \<open>running\<close> and calls the callback. The first component
  is \<open>Some msg\<close> when the callback raises inside the handler, so that the exception leaves
  the thread.
\<close>

definition execute_background_task :: "task \<Rightarrow> proc \<Rightarrow> string option \<times> task \<times> event list" where
  "execute_background_task t p =
     (case try_block t p of
        (None, t', evs) \<Rightarrow> (None, t', evs)
      | (Some e, t', evs) \<Rightarrow>
          (let error_msg = msg_bg_failed_prefix @ e;
               r = ErrorResult error_msg;
               t'' = t'\<lparr> t_result := Some r, t_running := False \<rparr>;
               evs' = evs @ [LogError error_msg, SetResult r, SetRunning False]
           in case t_callback t' of
                None \<Rightarrow> (None, t'', evs')
              | Some f \<Rightarrow> (f r, t'', evs' @ [Callback r])))"

text \<open>The thread started for the task at reference \<open>ref\<close> runs it and updates the shared dict.\<close>

definition run_thread :: "executor \<Rightarrow> nat \<Rightarrow> proc \<Rightarrow> executor \<times> event list" where
  "run_thread ex ref p =
     (case execute_background_task (task_store ex ! ref) p of
        (uncaught, t', evs) \<Rightarrow> (ex\<lparr> task_store := (task_store ex)[ref := t'] \<rparr>, evs))"

section \<open>The task registry\<close>

text \<open>The dict returned by \<open>get_background_task\<close> for a task.\<close>

record task_summary =
  s_id :: string
  s_command :: string
  s_start_time :: int
  s_running :: bool
  s_result :: "cmd_result option"

definition summary :: "task \<Rightarrow> task_summary" where
  "summary t = \<lparr> s_id = t_id t, s_command = t_command t, s_start_time = t_start_time t,
                 s_running = t_running t, s_result = t_result t \<rparr>"

text \<open>\<open>get_background_task\<close>: the error dict for an unknown id, the summary otherwise.\<close>

definition get_background_task :: "executor \<Rightarrow> string \<Rightarrow> string + task_summary" where
  "get_background_task ex task_id =
     (case map_of (background_tasks ex) task_id of
        None \<Rightarrow> Inl (msg_no_task_prefix @ task_id)
      | Some ref \<Rightarrow> Inr (summary (task_store ex ! ref)))"

text \<open>
  The loop of \<open>clear_background_tasks\<close> over the snapshot \<open>list(self.background_tasks.items())\<close>:
  a task that is not running is appended to \<open>cleared_tasks\<close> and deleted from the registry.
\<close>

fun clear_loop :: "task list \<Rightarrow> (string \<times> nat) list \<Rightarrow> (string \<times> nat) list \<Rightarrow> string list
    \<Rightarrow> (string \<times> nat) list \<times> string list" where
  "clear_loop store [] reg cleared_tasks = (reg, cleared_tasks)"
| "clear_loop store ((task_id, ref) # items) reg cleared_tasks =
     (if \<not> t_running (store ! ref)
      then clear_loop store items (AList.delete task_id reg) (cleared_tasks @ [task_id])
      else clear_loop store items reg cleared_tasks)"

text \<open>The dict returned by \<open>clear_background_tasks\<close>.\<close>

record clear_result =
  c_success :: bool
  c_cleared_tasks :: "string list"
  c_count :: nat

definition clear_background_tasks :: "executor \<Rightarrow> clear_result \<times> executor" where
  "clear_background_tasks ex =
     (case clear_loop (task_store ex) (background_tasks ex) (background_tasks ex) [] of
        (reg, cleared_tasks) \<Rightarrow>
          (\<lparr> c_success = True, c_cleared_tasks = cleared_tasks, c_count = length cleared_tasks \<rparr>,
           ex\<lparr> background_tasks := reg \<rparr>))"

text \<open>The history entry that \<open>_add_to_history\<close> builds for a command and a clock reading.\<close>

definition entry_of :: "executor \<Rightarrow> string \<times> int \<Rightarrow> history_entry" where
  "entry_of ex cn = \<lparr> h_command = fst cn, h_time = snd cn, h_cwd = current_dir ex \<rparr>"

text \<open>
  Whether the settings give a block-list of their own: the \<open>tools\<close> section is present and
  has the key \<open>blocked_commands\<close>.
\<close>

definition blocked_configured :: "tools_settings option \<Rightarrow> bool" where
  "blocked_configured tools = (case tools of None \<Rightarrow> False | Some ts \<Rightarrow> ts_blocked_commands ts \<noteq> None)"

text \<open>The ids of the tasks of a snapshot that are not running, in the order of the snapshot.\<close>

definition dead_ids :: "task list \<Rightarrow> (string \<times> nat) list \<Rightarrow> string list" where
  "dead_ids store items = map fst (filter (\<lambda>(task_id, ref). \<not> t_running (store ! ref)) items)"

text \<open>The number that a string of decimal digits denotes.\<close>

definition digits_value :: "string \<Rightarrow> nat" where
  "digits_value s = foldl (\<lambda>acc c. 10 * acc + (of_char c - 48)) 0 s"

text \<open>The trace and the final task dict of the thread of a task.\<close>

definition watchdog_events :: "task \<Rightarrow> proc \<Rightarrow> event list" where
  "watchdog_events t p = snd (snd (execute_background_task t p))"

definition watchdog_task :: "task \<Rightarrow> proc \<Rightarrow> task" where
  "watchdog_task t p = fst (snd (execute_background_task t p))"

section \<open>Example inputs\<close>

text \<open>An executor with an allow-list and a block-list, and one constructed with neither.\<close>

definition ex_lists :: executor where
  "ex_lists = init_executor 30 (Some [''rm'', ''ls'']) (Some [''rm -rf /'']) ''/home''"

definition ex_plain :: executor where
  "ex_plain = init_executor 30 None None ''/home''"

text \<open>One hundred and one commands, each with its clock reading.\<close>

definition cmds_101 :: "(string \<times> int) list" where
  "cmds_101 = map (\<lambda>i. (''echo'', int i)) [0..<101]"

text \<open>An executor that has recorded three commands.\<close>

definition ex_three :: executor where
  "ex_three = record_all ex_plain [(''ls'', 1), (''pwd'', 2), (''date'', 3)]"

text \<open>
  Two calls whose clock readings agree, and one a microsecond later; the foreground command
  of the first prints \<open>hello\<close>.
\<close>

definition world_bg :: world where
  "world_bg = \<lparr> w_time_history = 1700000000000000, w_time_id = 1700000000000000,
                w_time_start = 1700000000000000, w_environ = [],
                w_run = Exited ''hello'' [] 0, w_thread_error = None \<rparr>"

definition world_later :: world where
  "world_later = world_bg\<lparr> w_time_id := 1700000000000001 \<rparr>"

text \<open>The executor after one background submission, and after a second one in the same microsecond.\<close>

definition ex_one_task :: executor where
  "ex_one_task = fst (snd (execute_background ex_plain ''sleep 1'' 30 ''/home'' None True None world_bg))"

definition ex_collided :: executor where
  "ex_collided = fst (snd (execute_background ex_one_task ''sleep 2'' 30 ''/home'' None True None world_bg))"

text \<open>
  A process that has exited at the first poll, and the executor after two submissions a
  microsecond apart, the thread of the first of which has run to its end.
\<close>

definition proc_quick :: proc where
  "proc_quick = \<lparr> p_spawn_error = None, p_exits_at = Some 0, p_stdout = ''done'', p_stderr = [],
                  p_returncode = 0, p_wait_error = None, p_term_returncode = -15 \<rparr>"

definition ex_two_tasks :: executor where
  "ex_two_tasks = fst (snd (execute_background ex_one_task ''sleep 2'' 30 ''/home'' None True None world_later))"

definition ex_first_done :: executor where
  "ex_first_done = fst (run_thread ex_two_tasks 0 proc_quick)"





text \<open>
  A task whose callback raises whenever it is called, submitted for a command that exits at
  once with return code 0.
\<close>

definition cb_boom :: "cmd_result \<Rightarrow> string option" where
  "cb_boom r = Some ''boom''"

definition ex_boom :: executor where
  "ex_boom = fst (snd (execute_command ex_plain ''echo hi'' None True None None True (Some cb_boom) world_bg))"

definition task_boom :: task where
  "task_boom = task_store ex_boom ! 0"

section \<open>Properties of the policy\<close>








section \<open>Properties of the history\<close>

lemma add_to_history_fields [simp]:
  "max_history (add_to_history ex c now) = max_history ex"
  "current_dir (add_to_history ex c now) = current_dir ex"
  by (simp_all add: add_to_history_def Let_def)

lemma add_to_history_drop:
  "command_history (add_to_history ex c now) =
     drop (Suc (length (command_history ex)) - max_history ex)
       (command_history ex @ [entry_of ex (c, now)])"
  if "length (command_history ex) \<le> max_history ex"
proof (cases "length (command_history ex) = max_history ex")
  case True
  then show ?thesis
    by (cases "command_history ex") (simp_all add: add_to_history_def Let_def entry_of_def)
next
  case False
  with that have "length (command_history ex) < max_history ex" by simp
  then show ?thesis
    by (simp add: add_to_history_def Let_def entry_of_def)
qed

lemma record_all_fields [simp]:
  "max_history (record_all ex es) = max_history ex"
  "current_dir (record_all ex es) = current_dir ex"
  by (induction ex es rule: record_all.induct) simp_all

lemma drop_append_short: "n \<le> length xs \<Longrightarrow> drop n xs @ ys = drop n (xs @ ys)"
  by simp

lemma record_all_drop:
  "length (command_history ex) \<le> max_history ex \<Longrightarrow>
   command_history (record_all ex es) =
     drop (length (command_history ex) + length es - max_history ex)
       (command_history ex @ map (entry_of ex) es)"
proof (induction ex es rule: record_all.induct)
  case (1 ex)
  then show ?case by simp
next
  case (2 ex c now rest)
  let ?h = "command_history ex" and ?m = "max_history ex"
  let ?e = "entry_of ex (c, now)"
  let ?d = "Suc (length ?h) - ?m"
  let ?r = "map (entry_of ex) rest"
  have h1: "command_history (add_to_history ex c now) = drop ?d (?h @ [?e])"
    using 2 by (simp add: add_to_history_drop)
  have len1: "length (command_history (add_to_history ex c now)) \<le> ?m"
    using 2 by (simp add: h1)
  have eo: "entry_of (add_to_history ex c now) = entry_of ex"
    by (rule ext) (simp add: entry_of_def)
  have "command_history (record_all (add_to_history ex c now) rest) =
      drop (length (drop ?d (?h @ [?e])) + length rest - ?m) (drop ?d (?h @ [?e]) @ ?r)"
    using "2.IH" len1 by (simp only: h1 eo add_to_history_fields)
  also have "drop ?d (?h @ [?e]) @ ?r = drop ?d ((?h @ [?e]) @ ?r)"
    by (rule drop_append_short) simp
  also have "drop (length (drop ?d (?h @ [?e])) + length rest - ?m) (drop ?d ((?h @ [?e]) @ ?r))
      = drop (length (drop ?d (?h @ [?e])) + length rest - ?m + ?d) ((?h @ [?e]) @ ?r)"
    by (simp only: drop_drop)
  also have "length (drop ?d (?h @ [?e])) + length rest - ?m + ?d
      = length ?h + length ((c, now) # rest) - ?m"
    using 2 by simp
  finally show ?case by simp
qed

text \<open>
  C6. Starting from the empty history, after any sequence of insertions the history holds at
  most \<open>max_history\<close> entries, namely the most recent ones in insertion order; an insertion
  into a full history drops the oldest entry; and after \<open>max_history + k\<close> insertions
  \<open>get_command_history(max_history)\<close> is the last \<open>max_history\<close> entries inserted,
  oldest first.
\<close>

theorem history_bounded_fifo:
  "command_history ex = [] \<longrightarrow>
     length (command_history (record_all ex es)) \<le> max_history ex
     \<and> command_history (record_all ex es) = drop (length es - max_history ex) (map (entry_of ex) es)
     \<and> (max_history ex \<le> length es \<and> 0 < max_history ex \<longrightarrow>
          command_history (add_to_history (record_all ex es) c now) =
            tl (command_history (record_all ex es)) @ [entry_of ex (c, now)])
     \<and> (length es = max_history ex + k \<longrightarrow>
          get_command_history (record_all ex es) (int (max_history ex)) = drop k (map (entry_of ex) es))"
proof (intro impI conjI)
  assume e: "command_history ex = []"
  then show h: "command_history (record_all ex es) = drop (length es - max_history ex) (map (entry_of ex) es)"
    using record_all_drop [of ex es] by simp
  show "length (command_history (record_all ex es)) \<le> max_history ex"
    by (simp add: h)
  show "get_command_history (record_all ex es) (int (max_history ex)) = drop k (map (entry_of ex) es)"
    if "length es = max_history ex + k"
    using that by (simp add: get_command_history_def slice_from_def h Let_def)
  show "command_history (add_to_history (record_all ex es) c now) =
            tl (command_history (record_all ex es)) @ [entry_of ex (c, now)]"
    if "max_history ex \<le> length es \<and> 0 < max_history ex"
  proof -
    have "length (command_history (record_all ex es)) = max_history ex"
      using that by (simp add: h)
    with that show ?thesis
      by (cases "command_history (record_all ex es)")
        (auto simp: add_to_history_def Let_def entry_of_def)
  qed
qed

theorem history_bounded_fifo_witness:
  "command_history ex_plain = []
   \<and> max_history ex_plain \<le> length cmds_101 \<and> 0 < max_history ex_plain
   \<and> length cmds_101 = max_history ex_plain + 1
   \<and> length (command_history (record_all ex_plain cmds_101)) \<le> 100
   \<and> command_history (add_to_history (record_all ex_plain cmds_101) ''ls'' 500) =
        tl (command_history (record_all ex_plain cmds_101)) @ [entry_of ex_plain (''ls'', 500)]
   \<and> get_command_history (record_all ex_plain cmds_101) 100 = drop 1 (map (entry_of ex_plain) cmds_101)"
  using history_bounded_fifo [of ex_plain cmds_101 "''ls''" 500 1]
  by (simp add: ex_plain_def cmds_101_def init_executor_def)

text \<open>
  C10. \<open>get_command_history(count)\<close> returns the last \<open>count\<close> entries for a count between 1
  and the length of the history; for \<open>count = 0\<close> it returns the whole history, since the
  slice \<open>[-0:]\<close> is the whole list; and for a count beyond the length it returns all entries.
\<close>

theorem get_command_history_slice:
  "get_command_history ex 0 = command_history ex
   \<and> (int (length (command_history ex)) < count \<longrightarrow> get_command_history ex count = command_history ex)
   \<and> (0 < count \<and> count \<le> int (length (command_history ex)) \<longrightarrow>
        get_command_history ex count = drop (length (command_history ex) - nat count) (command_history ex)
        \<and> length (get_command_history ex count) = nat count)"
  by (auto simp: get_command_history_def slice_from_def Let_def nat_diff_distrib)

lemma ex_three_history:
  "command_history ex_three =
     [entry_of ex_plain (''ls'', 1), entry_of ex_plain (''pwd'', 2), entry_of ex_plain (''date'', 3)]"
  by (simp add: ex_three_def ex_plain_def init_executor_def add_to_history_def entry_of_def)

theorem get_command_history_slice_witness:
  "int (length (command_history ex_three)) < 5
   \<and> get_command_history ex_three 5 = command_history ex_three
   \<and> get_command_history ex_three 0 = command_history ex_three
   \<and> (0::int) < 2 \<and> 2 \<le> int (length (command_history ex_three))
   \<and> get_command_history ex_three 2 = [entry_of ex_plain (''pwd'', 2), entry_of ex_plain (''date'', 3)]"
  using get_command_history_slice [of ex_three 5] get_command_history_slice [of ex_three 2]
  by (simp add: ex_three_history)

section \<open>Denied commands and the default block-list\<close>

text \<open>
  C3. A command that the policy denies makes \<open>execute_command\<close> return the denial error at
  once: the trace holds the warning of the policy check alone, so no process is spawned and no
  thread is started, and the executor, its history included, is unchanged.
\<close>

theorem denied_command_no_effect:
  "\<not> is_command_allowed ex c \<Longrightarrow>
     execute_command ex c tmo bg cwd env shell cb w = (ErrorResult msg_forbidden, ex, [LogWarning])"
  by (simp add: execute_command_def)

lemma allowed_command_recorded:
  "is_command_allowed ex c \<Longrightarrow>
     command_history (fst (snd (execute_command ex c tmo bg cwd env shell cb w)))
       = command_history (add_to_history ex c (w_time_history w))"
  by (auto simp: execute_command_def execute_background_def Let_def split: prod.splits option.splits)

lemma ex_lists_denies: "\<not> is_command_allowed ex_lists ''rm -rf / --no-preserve-root''"
  by code_simp

theorem denied_command_no_effect_witness:
  "\<not> is_command_allowed ex_lists ''rm -rf / --no-preserve-root''
   \<and> execute_command ex_lists ''rm -rf / --no-preserve-root'' None False None None True None world_bg
       = (ErrorResult msg_forbidden, ex_lists, [LogWarning])"
  using denied_command_no_effect [OF ex_lists_denies] ex_lists_denies by simp

text \<open>
  An executor constructed with no block-list has the empty block-list and allows the
  recursive-delete commands.
\<close>

theorem executor_default_blocklist_counterexample:
  "blocked_commands (init_executor 30 None None ''/home'') = []
   \<and> is_command_allowed (init_executor 30 None None ''/home'') ''rm -rf /''
   \<and> is_command_allowed (init_executor 30 None None ''/home'') ''del /f /s /q''"
  by (simp add: init_executor_def is_command_allowed_def)

lemma lower_defaults: "map lower default_blocked_commands = default_blocked_commands"
  by code_simp

text \<open>
  C4, as amended. When the command handler constructs the executor from settings that have
  no \<open>blocked_commands\<close> entry, the block-list is \<open>["rm -rf /", "del /f /s /q"]\<close>, and every
  command whose trimmed, lower-cased text starts with one of the two is denied.
\<close>

theorem handler_default_blocklist:
  "\<not> blocked_configured tools \<longrightarrow>
     blocked_commands (handler_executor tools cwd) = [''rm -rf /'', ''del /f /s /q'']
     \<and> (startswith (lower (strip c)) ''rm -rf /'' \<or> startswith (lower (strip c)) ''del /f /s /q''
          \<longrightarrow> \<not> is_command_allowed (handler_executor tools cwd) c)"
proof
  assume a: "\<not> blocked_configured tools"
  then have b: "blocked_commands (handler_executor tools cwd) = default_blocked_commands"
    by (auto simp: blocked_configured_def handler_executor_def init_executor_def Let_def empty_tools_def
        split: option.splits)
  have l: "lower ''rm -rf /'' = ''rm -rf /''" "lower ''del /f /s /q'' = ''del /f /s /q''"
    using lower_defaults by (simp_all add: default_blocked_commands_def)
  show "blocked_commands (handler_executor tools cwd) = [''rm -rf /'', ''del /f /s /q'']
     \<and> (startswith (lower (strip c)) ''rm -rf /'' \<or> startswith (lower (strip c)) ''del /f /s /q''
          \<longrightarrow> \<not> is_command_allowed (handler_executor tools cwd) c)"
    unfolding is_command_allowed_def b
    by (auto simp: default_blocked_commands_def l simp del: lower_def)
qed

lemma example_rm_prefix: "startswith (lower (strip '' RM -rf /home'')) ''rm -rf /''"
  by code_simp

theorem handler_default_blocklist_witness:
  "\<not> blocked_configured None
   \<and> blocked_commands (handler_executor None ''/home'') = [''rm -rf /'', ''del /f /s /q'']
   \<and> startswith (lower (strip '' RM -rf /home'')) ''rm -rf /''
   \<and> \<not> is_command_allowed (handler_executor None ''/home'') '' RM -rf /home''"
  using handler_default_blocklist [of None "''/home''" "'' RM -rf /home''"] example_rm_prefix
  by (simp add: blocked_configured_def)

section \<open>The foreground path\<close>


section \<open>Task ids\<close>

lemma of_char_digit: "d < 10 \<Longrightarrow> (of_char (digit_char d) :: nat) = 48 + d"
  by (simp add: digit_char_def)

lemma digits_value_snoc: "digits_value (s @ [c]) = 10 * digits_value s + (of_char c - 48)"
  by (simp add: digits_value_def)

lemma digits_value_str_nat: "digits_value (str_nat n) = n"
proof (induction n rule: str_nat.induct)
  case (1 n)
  show ?case
  proof (cases "n < 10")
    case True
    then show ?thesis
      by (subst str_nat.simps) (simp add: digits_value_def of_char_digit)
  next
    case False
    then have "digits_value (str_nat n) =
        10 * digits_value (str_nat (n div 10)) + (of_char (digit_char (n mod 10)) - 48)"
      by (subst str_nat.simps) (simp add: digits_value_snoc)
    with False 1 show ?thesis by (simp add: of_char_digit)
  qed
qed

lemma str_nat_inj: "str_nat a = str_nat b \<Longrightarrow> a = b"
  by (metis digits_value_str_nat)

lemma digit_char_not_minus: "k < 10 \<Longrightarrow> digit_char k \<noteq> CHR ''-''"
proof
  assume "k < 10" and "digit_char k = CHR ''-''"
  then have "(of_char (digit_char k) :: nat) = of_char CHR ''-''" by simp
  with \<open>k < 10\<close> show False by (simp add: of_char_digit)
qed

lemma str_nat_no_minus: "CHR ''-'' \<notin> set (str_nat n)"
proof (induction n rule: str_nat.induct)
  case (1 n)
  show ?case
  proof (cases "n < 10")
    case True
    then show ?thesis using digit_char_not_minus [of n] by (subst str_nat.simps) auto
  next
    case False
    with 1 show ?thesis using digit_char_not_minus [of "n mod 10"] by (subst str_nat.simps) auto
  qed
qed

lemma str_nat_not_minus_cons: "str_nat n \<noteq> CHR ''-'' # s"
  using str_nat_no_minus [of n] by (metis list.set_intros(1))

lemma str_int_inj: "str_int a = str_int b \<Longrightarrow> a = b"
proof -
  assume e: "str_int a = str_int b"
  show ?thesis
  proof (cases "a < 0")
    case True
    show ?thesis
    proof (cases "b < 0")
      case True
      with \<open>a < 0\<close> e have "str_nat (nat (- a)) = str_nat (nat (- b))" by (simp add: str_int_def)
      then have "nat (- a) = nat (- b)" by (rule str_nat_inj)
      with True \<open>a < 0\<close> show ?thesis by simp
    next
      case False
      with \<open>a < 0\<close> e have "str_nat (nat b) = CHR ''-'' # str_nat (nat (- a))" by (simp add: str_int_def)
      then show ?thesis using str_nat_not_minus_cons by blast
    qed
  next
    case False
    show ?thesis
    proof (cases "b < 0")
      case True
      with False e have "str_nat (nat a) = CHR ''-'' # str_nat (nat (- b))" by (simp add: str_int_def)
      then show ?thesis using str_nat_not_minus_cons by blast
    next
      case b: False
      with False e have "str_nat (nat a) = str_nat (nat b)" by (simp add: str_int_def)
      then have "nat a = nat b" by (rule str_nat_inj)
      with False b show ?thesis by simp
    qed
  qed
qed

lemma make_task_id_inj: "(make_task_id a = make_task_id b) = (a = b)"
  by (auto simp: make_task_id_def dest: str_int_inj)

text \<open>
  Two submissions that read the same microsecond get the same task id, and the second task
  replaces the first in the registry: two task dicts, one registry entry.
\<close>

theorem task_id_collision_counterexample:
  "get_task_id (fst (execute_background ex_plain ''sleep 1'' 30 ''/home'' None True None world_bg))
     = get_task_id (fst (execute_background ex_one_task ''sleep 2'' 30 ''/home'' None True None world_bg))
   \<and> length (task_store ex_collided) = 2
   \<and> length (background_tasks ex_collided) = 1"
  by (simp add: ex_collided_def ex_one_task_def execute_background_def Let_def world_bg_def
      ex_plain_def init_executor_def)

text \<open>
  C7, as amended. The task id of a submission is determined by its clock reading in
  microseconds alone: two submissions whose threads start get different ids exactly when
  their readings of \<open>int(time.time() * 1000000)\<close> differ.
\<close>

theorem task_id_determined_by_clock:
  "w_thread_error w1 = None \<and> w_thread_error w2 = None \<longrightarrow>
     (get_task_id (fst (execute_background ex1 c1 t1 d1 e1 s1 f1 w1))
        = get_task_id (fst (execute_background ex2 c2 t2 d2 e2 s2 f2 w2)))
     = (w_time_id w1 = w_time_id w2)"
  by (simp add: execute_background_def Let_def make_task_id_inj)

theorem task_id_determined_by_clock_witness:
  "w_thread_error world_bg = None \<and> w_thread_error world_later = None
   \<and> w_time_id world_bg \<noteq> w_time_id world_later
   \<and> get_task_id (fst (execute_background ex_plain ''sleep 1'' 30 ''/home'' None True None world_bg))
      \<noteq> get_task_id (fst (execute_background ex_one_task ''sleep 2'' 30 ''/home'' None True None world_later))"
  using task_id_determined_by_clock [of world_bg world_later ex_plain "''sleep 1''" 30 "''/home''" None
      True None ex_one_task "''sleep 2''" 30 "''/home''" None True None]
  by (simp add: world_bg_def world_later_def)

section \<open>Clearing the registry\<close>

lemma clear_loop_eq:
  "clear_loop store items reg cleared =
     (filter (\<lambda>(k, r). k \<notin> set (dead_ids store items)) reg, cleared @ dead_ids store items)"
proof (induction store items reg cleared rule: clear_loop.induct)
  case (1 store reg cleared_tasks)
  then show ?case by (simp add: dead_ids_def)
next
  case (2 store task_id ref items reg cleared_tasks)
  show ?case
  proof (cases "t_running (store ! ref)")
    case True
    with 2 show ?thesis by (simp add: dead_ids_def)
  next
    case False
    have "filter (\<lambda>(k, r). k \<notin> set (dead_ids store items)) (AList.delete task_id reg)
        = filter (\<lambda>(k, r). k \<notin> set (dead_ids store ((task_id, ref) # items))) reg"
      using False by (auto simp: dead_ids_def AList.delete_eq intro: filter_cong)
    with 2 False show ?thesis by (simp add: dead_ids_def)
  qed
qed

lemma dead_ids_distinct:
  assumes "distinct (map fst reg)" and "(k, r) \<in> set reg"
  shows "k \<in> set (dead_ids store reg) \<longleftrightarrow> \<not> t_running (store ! r)"
proof
  assume "k \<in> set (dead_ids store reg)"
  then obtain r' where r': "(k, r') \<in> set reg" "\<not> t_running (store ! r')"
    by (auto simp: dead_ids_def)
  with assms have "r' = r" by (meson eq_key_imp_eq_value)
  with r' show "\<not> t_running (store ! r)" by simp
next
  assume "\<not> t_running (store ! r)"
  with assms(2) show "k \<in> set (dead_ids store reg)"
    by (force simp: dead_ids_def)
qed

lemma clear_registry:
  assumes "distinct (map fst (background_tasks ex))"
  shows "clear_background_tasks ex =
     (\<lparr> c_success = True, c_cleared_tasks = dead_ids (task_store ex) (background_tasks ex),
        c_count = length (dead_ids (task_store ex) (background_tasks ex)) \<rparr>,
      ex\<lparr> background_tasks := filter (\<lambda>(k, r). t_running (task_store ex ! r)) (background_tasks ex) \<rparr>)"
proof -
  have "filter (\<lambda>(k, r). k \<notin> set (dead_ids (task_store ex) (background_tasks ex))) (background_tasks ex)
      = filter (\<lambda>(k, r). t_running (task_store ex ! r)) (background_tasks ex)"
    using dead_ids_distinct [OF assms] by (auto intro!: filter_cong)
  then show ?thesis
    by (simp add: clear_background_tasks_def clear_loop_eq)
qed

text \<open>
  C9. On a registry (a dict, so its keys are distinct) \<open>clear_background_tasks\<close> keeps
  exactly the entries of the running tasks, in their order, and reports the ids of the others
  and their number; a task that was running at the call is returned by
  \<open>get_background_task\<close> afterwards, and one that was not is unknown afterwards.
\<close>

theorem clear_removes_exactly_finished:
  assumes "distinct (map fst (background_tasks ex))"
  shows "background_tasks (snd (clear_background_tasks ex)) =
           filter (\<lambda>(k, r). t_running (task_store ex ! r)) (background_tasks ex)
       \<and> task_store (snd (clear_background_tasks ex)) = task_store ex
       \<and> c_cleared_tasks (fst (clear_background_tasks ex)) =
           map fst (filter (\<lambda>(k, r). \<not> t_running (task_store ex ! r)) (background_tasks ex))
       \<and> c_count (fst (clear_background_tasks ex)) =
           length (filter (\<lambda>(k, r). \<not> t_running (task_store ex ! r)) (background_tasks ex))
       \<and> length (background_tasks (snd (clear_background_tasks ex))) + c_count (fst (clear_background_tasks ex))
           = length (background_tasks ex)
       \<and> (\<forall>k r. map_of (background_tasks ex) k = Some r \<longrightarrow>
            (if t_running (task_store ex ! r)
             then get_background_task (snd (clear_background_tasks ex)) k = Inr (summary (task_store ex ! r))
             else get_background_task (snd (clear_background_tasks ex)) k = Inl (msg_no_task_prefix @ k)))"
proof -
  let ?reg = "background_tasks ex" and ?st = "task_store ex"
  let ?P = "\<lambda>(k::string, r). t_running (?st ! r)"
  have c: "clear_background_tasks ex =
     (\<lparr> c_success = True, c_cleared_tasks = dead_ids ?st ?reg, c_count = length (dead_ids ?st ?reg) \<rparr>,
      ex\<lparr> background_tasks := filter ?P ?reg \<rparr>)"
    using clear_registry [OF assms] .
  have m: "map_of (filter ?P ?reg) k = (if t_running (?st ! r) then Some r else None)"
    if "map_of ?reg k = Some r" for k r
  proof (cases "t_running (?st ! r)")
    case True
    have "(k, r) \<in> set (filter ?P ?reg)"
      using that True by (auto dest: map_of_SomeD)
    moreover have "distinct (map fst (filter ?P ?reg))"
      using assms by (simp add: distinct_map_filter)
    ultimately show ?thesis using True by simp
  next
    case False
    have "k \<notin> fst ` set (filter ?P ?reg)"
    proof
      assume "k \<in> fst ` set (filter ?P ?reg)"
      then obtain r' where r': "(k, r') \<in> set ?reg" "t_running (?st ! r')" by auto
      from that have "(k, r) \<in> set ?reg" by (rule map_of_SomeD)
      with r' assms have "r' = r" by (meson eq_key_imp_eq_value)
      with r' False show False by simp
    qed
    then have "map_of (filter ?P ?reg) k = None" by (simp add: map_of_eq_None_iff)
    with False show ?thesis by simp
  qed
  have l: "length (filter ?P ?reg) + length (filter (\<lambda>(k, r). \<not> t_running (?st ! r)) ?reg) = length ?reg"
    using sum_length_filter_compl [of ?P ?reg] by (simp add: case_prod_unfold)
  show ?thesis
    using l by (auto simp: c dead_ids_def get_background_task_def m)
qed

lemma ex_first_done_registry:
  "background_tasks ex_first_done =
     [(make_task_id 1700000000000000, 0), (make_task_id 1700000000000001, 1)]"
  by (simp add: ex_first_done_def run_thread_def ex_two_tasks_def ex_one_task_def execute_background_def
      Let_def world_bg_def world_later_def ex_plain_def init_executor_def make_task_id_inj
      split: prod.splits)

lemma ex_first_done_running:
  "\<not> t_running (task_store ex_first_done ! 0)" "t_running (task_store ex_first_done ! 1)"
  by (simp_all add: ex_first_done_def run_thread_def ex_two_tasks_def ex_one_task_def execute_background_def
      Let_def world_bg_def world_later_def ex_plain_def init_executor_def
      execute_background_task_def try_block_def record_result_def proc_quick_def exited_def
      wait_loop.simps split: prod.splits)

theorem clear_removes_exactly_finished_witness:
  "distinct (map fst (background_tasks ex_first_done))
   \<and> map_of (background_tasks ex_first_done) (make_task_id 1700000000000001) = Some 1
   \<and> t_running (task_store ex_first_done ! 1)
   \<and> c_count (fst (clear_background_tasks ex_first_done)) = 1
   \<and> c_cleared_tasks (fst (clear_background_tasks ex_first_done)) = [make_task_id 1700000000000000]
   \<and> background_tasks (snd (clear_background_tasks ex_first_done)) = [(make_task_id 1700000000000001, 1)]
   \<and> get_background_task (snd (clear_background_tasks ex_first_done)) (make_task_id 1700000000000001)
        = Inr (summary (task_store ex_first_done ! 1))
   \<and> get_background_task (snd (clear_background_tasks ex_first_done)) (make_task_id 1700000000000000)
        = Inl (msg_no_task_prefix @ make_task_id 1700000000000000)"
proof -
  have d: "distinct (map fst (background_tasks ex_first_done))"
    by (simp add: ex_first_done_registry make_task_id_inj)
  have m: "map_of (background_tasks ex_first_done) (make_task_id 1700000000000001) = Some 1"
    "map_of (background_tasks ex_first_done) (make_task_id 1700000000000000) = Some 0"
    by (simp_all add: ex_first_done_registry make_task_id_inj)
  show ?thesis
    using clear_removes_exactly_finished [OF d] d m ex_first_done_running
    by (simp add: ex_first_done_registry)
qed

section \<open>The thread of a task at its timeout\<close>











section \<open>The callback of a background task\<close>

lemma ex_boom_task:
  "task_boom =
     \<lparr> t_id = make_task_id 1700000000000000, t_command = ''echo hi'',
       t_start_time = 1700000000000000, t_timeout = 30, t_cwd = ''/home'', t_env = [],
       t_shell = True, t_running = True, t_result = None, t_process = False,
       t_callback = Some cb_boom \<rparr>"
  by (simp add: task_boom_def ex_boom_def execute_command_def execute_background_def Let_def
      world_bg_def ex_plain_def init_executor_def is_command_allowed_def add_to_history_def)

lemma wait_loop_quick: "wait_loop proc_quick 30 0 = (0, [Poll])"
  by (simp add: wait_loop.simps exited_def proc_quick_def)

lemma proc_quick_fields:
  "p_spawn_error proc_quick = None" "exited proc_quick 0" "p_stdout proc_quick = ''done''"
  "p_stderr proc_quick = []" "p_returncode proc_quick = 0"
  by (simp_all add: proc_quick_def exited_def)

text \<open>
  C8 at a callback that raises. The command exits with return code 0; the thread stores the
  success dict and calls the callback, which raises; the handler of the \<open>try\<close> block then
  stores an error dict over the result and calls the callback a second time, whose exception
  leaves the thread. The result is written twice and the callback is called twice.
\<close>

theorem callback_exception_overwrites_result:
  "watchdog_events task_boom proc_quick =
     [Spawn, Poll, Poll, Communicate,
      SetResult (RunResult True ''done'' [] 0 ''echo hi'' 30 True), SetRunning False,
      Callback (RunResult True ''done'' [] 0 ''echo hi'' 30 True),
      LogError (msg_bg_failed_prefix @ ''boom''),
      SetResult (ErrorResult (msg_bg_failed_prefix @ ''boom'')), SetRunning False,
      Callback (ErrorResult (msg_bg_failed_prefix @ ''boom''))]
   \<and> t_result (watchdog_task task_boom proc_quick) = Some (ErrorResult (msg_bg_failed_prefix @ ''boom''))
   \<and> fst (execute_background_task task_boom proc_quick) = Some ''boom''"
  by (simp add: watchdog_events_def watchdog_task_def execute_background_task_def try_block_def
      record_result_def wait_loop_quick proc_quick_fields ex_boom_task cb_boom_def Let_def)

end
